theory Spec2Isabelle
  imports Main "HOL-Library.Word"
begin

section \<open>Python values used by the three modules\<close>

text \<open>
  A Python \<open>str\<close> is a sequence of code points. It is modelled as \<open>string\<close>, each
  \<open>char\<close> standing for the code point of the same number, so the model covers the
  \<open>str\<close> values over the code points 0..255. On that range \<open>str.isspace\<close> and
  \<open>str.lower\<close> are the tables written out below. A \<open>bytes\<close> object is a list of
  octets.
\<close>

type_synonym bytes = "8 word list"

text \<open>
  Exceptions are values. The first three classes derive from \<open>BaseException\<close> only;
  all the others derive from \<open>Exception\<close>. The string carried by an exception is what
  \<open>str(e)\<close> returns. \<open>Error\<close> is \<open>googlecloudsdk.core.exceptions.Error\<close>.
\<close>

datatype exn =
    KeyboardInterrupt
  | SystemExit
  | GeneratorExit
  | OSError string
  | IndexError string
  | ValueError string
  | AttributeError string
  | KeyError string
  | Error string
  | OtherException string

fun isinstance_Exception :: "exn \<Rightarrow> bool" where
  "isinstance_Exception KeyboardInterrupt = False"
| "isinstance_Exception SystemExit = False"
| "isinstance_Exception GeneratorExit = False"
| "isinstance_Exception _ = True"

fun str_exn :: "exn \<Rightarrow> string" where
  "str_exn KeyboardInterrupt = []"
| "str_exn SystemExit = []"
| "str_exn GeneratorExit = []"
| "str_exn (OSError m) = m"
| "str_exn (IndexError m) = m"
| "str_exn (ValueError m) = m"
| "str_exn (AttributeError m) = m"
| "str_exn (KeyError m) = m"
| "str_exn (Error m) = m"
| "str_exn (OtherException m) = m"

subsection \<open>\<open>str.isspace\<close>, \<open>str.strip\<close>\<close>

definition isspace :: "char \<Rightarrow> bool" where
  "isspace c =
     (let n = (of_char c :: nat)
      in (9 \<le> n \<and> n \<le> 13) \<or> (28 \<le> n \<and> n \<le> 32) \<or> n = 133 \<or> n = 160)"

definition lstrip :: "string \<Rightarrow> string" where
  "lstrip s = dropWhile isspace s"

definition rstrip :: "string \<Rightarrow> string" where
  "rstrip s = rev (dropWhile isspace (rev s))"

definition strip :: "string \<Rightarrow> string" where
  "strip s = rstrip (lstrip s)"

section \<open>\<open>process_audio.py\<close>\<close>

subsection \<open>Messages of \<open>speech_v1\<close>\<close>

datatype AudioEncoding = ENCODING_UNSPECIFIED | LINEAR16 | FLAC | MULAW

record RecognitionConfig =
  encoding :: AudioEncoding
  sample_rate_hertz :: int
  language_code :: string
  enable_automatic_punctuation :: bool

record RecognitionAudio =
  content :: bytes

record SpeechRecognitionAlternative =
  transcript :: string

record SpeechRecognitionResult =
  alternatives :: "SpeechRecognitionAlternative list"

record RecognizeResponse =
  results :: "SpeechRecognitionResult list"

subsection \<open>The world the function runs in\<close>

text \<open>
  The recognition service, the client constructor and the file system are outside the
  program. Each is a field of the environment and may raise: \<open>Inl e\<close> is the exception
  \<open>e\<close>, \<open>Inr v\<close> the value \<open>v\<close>. \<open>'c\<close> is the client object, \<open>'f\<close> the open file.
  Leaving the \<open>with\<close> block closes the file; the close is not a step of the model.
\<close>

record ('c, 'f) speech_env =
  SpeechClient :: "exn + 'c"
  open_rb :: "string \<Rightarrow> exn + 'f"
  read :: "'f \<Rightarrow> exn + bytes"
  recognize :: "'c \<Rightarrow> RecognitionConfig \<Rightarrow> RecognitionAudio \<Rightarrow> exn + RecognizeResponse"

text \<open>What the function does to the outside, in order: requests sent and lines printed.\<close>

datatype event =
    Recognize RecognitionConfig RecognitionAudio
  | Print string

fun recognize_calls :: "event list \<Rightarrow> (RecognitionConfig \<times> RecognitionAudio) list" where
  "recognize_calls [] = []"
| "recognize_calls (Recognize cfg a # evs) = (cfg, a) # recognize_calls evs"
| "recognize_calls (Print _ # evs) = recognize_calls evs"

subsection \<open>The function\<close>

text \<open>
  Lines 32 to 34: the loop over \<open>response.results\<close>, with the accumulator
  \<open>transcription\<close>. \<open>result.alternatives[0]\<close> raises \<open>IndexError\<close> on an empty list.
\<close>

fun extract_transcription :: "string \<Rightarrow> SpeechRecognitionResult list \<Rightarrow> exn + string" where
  "extract_transcription transcription [] = Inr transcription"
| "extract_transcription transcription (result # rest) =
     (case alternatives result of
        [] \<Rightarrow> Inl (IndexError ''list index out of range'')
      | alt # _ \<Rightarrow> extract_transcription (transcription @ transcript alt @ '' '') rest)"

definition recognition_config :: RecognitionConfig where
  "recognition_config =
     \<lparr> encoding = LINEAR16,
       sample_rate_hertz = 44100,
       language_code = ''en-US'',
       enable_automatic_punctuation = True \<rparr>"

text \<open>Lines 12 to 36: the body of the \<open>try\<close>, up to and including the \<open>return\<close>.\<close>

definition process_audio_try ::
  "('c, 'f) speech_env \<Rightarrow> string \<Rightarrow> event list \<times> (exn + string)" where
  "process_audio_try env audio_file_path =
     (case SpeechClient env of
        Inl e \<Rightarrow> ([], Inl e)
      | Inr client \<Rightarrow>
     (case open_rb env audio_file_path of
        Inl e \<Rightarrow> ([], Inl e)
      | Inr audio_file \<Rightarrow>
     (case read env audio_file of
        Inl e \<Rightarrow> ([], Inl e)
      | Inr file_content \<Rightarrow>
     (let audio = \<lparr> content = file_content \<rparr>;
          config = recognition_config
      in case recognize env client config audio of
           Inl e \<Rightarrow> ([Recognize config audio], Inl e)
         | Inr response \<Rightarrow>
             (case extract_transcription [] (results response) of
                Inl e \<Rightarrow> ([Recognize config audio], Inl e)
              | Inr transcription \<Rightarrow> ([Recognize config audio], Inr (strip transcription)))))))"

text \<open>
  Lines 11 and 38 to 40: \<open>except Exception as e\<close> handles the instances of
  \<open>Exception\<close>, prints and returns \<open>None\<close>; any other exception leaves the function.
  The result is \<open>Inr (Some s)\<close> for the string \<open>s\<close>, \<open>Inr None\<close> for \<open>None\<close>.
\<close>

definition process_audio ::
  "('c, 'f) speech_env \<Rightarrow> string \<Rightarrow> event list \<times> (exn + string option)" where
  "process_audio env audio_file_path =
     (case process_audio_try env audio_file_path of
        (evs, Inr transcription) \<Rightarrow> (evs, Inr (Some transcription))
      | (evs, Inl e) \<Rightarrow>
          if isinstance_Exception e
          then (evs @ [Print (''Error processing audio: '' @ str_exn e)], Inr None)
          else (evs, Inl e))"

section \<open>\<open>list_deployment_config.py\<close>\<close>

subsection \<open>\<open>str.lower\<close>, \<open>str.split\<close>\<close>

text \<open>
  The cased code points below 256: A to Z, and the capital letters 192 to 222 of the
  Latin-1 block without the multiplication sign 215. \<open>str.lower\<close> adds 32 to each.
\<close>

definition isupper :: "char \<Rightarrow> bool" where
  "isupper c =
     (let n = (of_char c :: nat)
      in (65 \<le> n \<and> n \<le> 90) \<or> (192 \<le> n \<and> n \<le> 222 \<and> n \<noteq> 215))"

definition lower_char :: "char \<Rightarrow> char" where
  "lower_char c = (if isupper c then char_of (of_char c + (32 :: nat)) else c)"

definition lower :: "string \<Rightarrow> string" where
  "lower s = map lower_char s"

text \<open>
  \<open>s.split(sep)\<close> for a separator of one character: the pieces between the
  occurrences of \<open>sep\<close>, empty pieces included; never the empty list.
\<close>

fun split :: "char \<Rightarrow> string \<Rightarrow> string list" where
  "split sep [] = [[]]"
| "split sep (c # cs) =
     (if c = sep then [] # split sep cs
      else (case split sep cs of
              [] \<Rightarrow> [[c]]
            | piece # pieces \<Rightarrow> (c # piece) # pieces))"

subsection \<open>Arguments and messages\<close>

text \<open>The parsed command line: \<open>--hugging-face-model\<close> and \<open>--model\<close>, \<open>None\<close> when absent.\<close>

record Namespace =
  hugging_face_model :: "string option"
  model :: "string option"

text \<open>
  The path \<open>supportedActions.multiDeployVertex.multiDeployVertex\<close> of the response. An
  unset message field is \<open>None\<close>, and reading an attribute of \<open>None\<close> raises
  \<open>AttributeError\<close>. The inner field of the same name is primed here. \<open>'d\<close> is the type
  of its value.
\<close>

record 'd DeployVertex =
  multiDeployVertex' :: 'd

record 'd CallToAction =
  multiDeployVertex :: "'d DeployVertex option"

record 'd PublisherModel =
  supportedActions :: "'d CallToAction option"

subsection \<open>The world the command runs in\<close>

text \<open>
  None of \<open>validation\<close>, \<open>constants\<close>, \<open>endpoint_util\<close> and \<open>client_mg\<close> is among the
  sources: each is a field of the environment. The validator and the entry of the
  endpoint override raise (\<open>Some e\<close>) or pass (\<open>None\<close>). \<open>GetPublisherModel\<close> takes the
  client, the model name and the keyword argument \<open>is_hugging_face_model\<close>, \<open>None\<close> when
  the caller leaves it out.
\<close>

record ('c, 'd) mg_env =
  ValidateModelGardenModelArgs :: "Namespace \<Rightarrow> exn option"
  BETA_VERSION :: string
  AiplatformEndpointOverrides :: "string \<Rightarrow> string \<Rightarrow> exn option"
  ModelGardenClient :: "string \<Rightarrow> exn + 'c"
  GetPublisherModel :: "'c \<Rightarrow> string \<Rightarrow> bool option \<Rightarrow> exn + 'd PublisherModel"

text \<open>A call of \<open>GetPublisherModel\<close>: the name and the keyword argument.\<close>

type_synonym mg_call = "string \<times> bool option"

subsection \<open>The command\<close>

definition not_deployable :: string where
  "not_deployable =
     ''Model does not support deployment, please enter a deploy-able model'' @
     '' instead. You can use the `gcloud ai model-garden models list`'' @
     '' command to find out which ones are currently supported by the'' @
     '' `deploy` command.''"

text \<open>Lines 78 to 80: the attribute path, read left to right.\<close>

definition read_multi_deploy :: "'d PublisherModel \<Rightarrow> exn + 'd" where
  "read_multi_deploy publisher_model =
     (case supportedActions publisher_model of
        None \<Rightarrow> Inl (AttributeError ''NoneType object has no attribute multiDeployVertex'')
      | Some actions \<Rightarrow>
          (case multiDeployVertex actions of
             None \<Rightarrow> Inl (AttributeError ''NoneType object has no attribute multiDeployVertex'')
           | Some deploy \<Rightarrow> Inr (multiDeployVertex' deploy)))"

text \<open>Lines 77 to 88: \<open>except AttributeError\<close> replaces that exception and no other.\<close>

definition multi_deploy_or_error :: "'d PublisherModel \<Rightarrow> exn + 'd" where
  "multi_deploy_or_error publisher_model =
     (case read_multi_deploy publisher_model of
        Inl (AttributeError _) \<Rightarrow> Inl (Error not_deployable)
      | Inl e \<Rightarrow> Inl e
      | Inr multi_deploy \<Rightarrow> Inr multi_deploy)"

text \<open>
  Lines 61 to 75, with the client at hand. Unpacking the pieces of \<open>split\<close> into two
  (three) names raises \<open>ValueError\<close> unless there are exactly two (three);
  \<open>args.model.lower()\<close> raises \<open>AttributeError\<close> when \<open>args.model\<close> is \<open>None\<close>. The
  first component lists the calls of \<open>GetPublisherModel\<close> made.
\<close>

definition fetch_publisher_model ::
  "('c, 'd) mg_env \<Rightarrow> 'c \<Rightarrow> Namespace \<Rightarrow> mg_call list \<times> (exn + 'd PublisherModel)" where
  "fetch_publisher_model env mg_client args =
     (case hugging_face_model args of
        Some hf \<Rightarrow>
          (case split CHR ''/'' (lower hf) of
             [publisher_name, model_name] \<Rightarrow>
               (let name = ''publishers/'' @ publisher_name @ ''/models/'' @ model_name
                in ([(name, Some True)], GetPublisherModel env mg_client name (Some True)))
           | _ \<Rightarrow> ([], Inl (ValueError ''wrong number of values to unpack (expected 2)'')))
      | None \<Rightarrow>
          (case model args of
             None \<Rightarrow> ([], Inl (AttributeError ''NoneType object has no attribute lower''))
           | Some m \<Rightarrow>
               (case split CHR ''/'' (lower m) of
                  [publisher_name, model_name, model_version_name] \<Rightarrow>
                    (let name = ''publishers/'' @ publisher_name @ ''/models/'' @ model_name
                                  @ ''@'' @ model_version_name
                     in ([(name, None)], GetPublisherModel env mg_client name None))
                | _ \<Rightarrow>
                    ([], Inl (ValueError ''wrong number of values to unpack (expected 3)'')))))"

text \<open>Lines 59 to 88: an exception of the lines before the \<open>try\<close> leaves the function.\<close>

definition GetMultiDeploy ::
  "('c, 'd) mg_env \<Rightarrow> Namespace \<Rightarrow> string \<Rightarrow> mg_call list \<times> (exn + 'd)" where
  "GetMultiDeploy env args version =
     (case ModelGardenClient env version of
        Inl e \<Rightarrow> ([], Inl e)
      | Inr mg_client \<Rightarrow>
          (case fetch_publisher_model env mg_client args of
             (calls, Inl e) \<Rightarrow> (calls, Inl e)
           | (calls, Inr publisher_model) \<Rightarrow> (calls, multi_deploy_or_error publisher_model)))"

text \<open>Lines 115 to 122.\<close>

definition Run :: "('c, 'd) mg_env \<Rightarrow> Namespace \<Rightarrow> mg_call list \<times> (exn + 'd)" where
  "Run env args =
     (case ValidateModelGardenModelArgs env args of
        Some e \<Rightarrow> ([], Inl e)
      | None \<Rightarrow>
     (let version = BETA_VERSION env
      in case AiplatformEndpointOverrides env version ''us-central1'' of
           Some e \<Rightarrow> ([], Inl e)
         | None \<Rightarrow> GetMultiDeploy env args version))"

section \<open>\<open>seclm_v1_client.py\<close>\<close>




subsection \<open>\<open>ProjectsLocationsOperationsService\<close>\<close>










subsection \<open>\<open>ProjectsLocationsWorkbenchesService\<close>\<close>














subsection \<open>\<open>ProjectsLocationsService\<close>\<close>






section \<open>Notions the properties are stated with\<close>

subsection \<open>For \<open>process_audio\<close>\<close>





subsection \<open>Sample runs of \<open>process_audio\<close>\<close>

definition riff :: bytes where
  "riff = [0x52, 0x49, 0x46, 0x46, 0x00, 0xFF]"

definition greeting :: RecognizeResponse where
  "greeting =
     \<lparr> results =
         [\<lparr> alternatives = [\<lparr> transcript = ''Hello.'' \<rparr>] \<rparr>,
          \<lparr> alternatives = [\<lparr> transcript = ''How are you?'' \<rparr>,
                             \<lparr> transcript = ''how are you'' \<rparr>] \<rparr>] \<rparr>"

text \<open>Every step returns.\<close>

definition studio :: "(unit, unit) speech_env" where
  "studio =
     \<lparr> SpeechClient = Inr (),
       open_rb = (\<lambda>path. Inr ()),
       read = (\<lambda>audio_file. Inr riff),
       recognize = (\<lambda>client config audio. Inr greeting) \<rparr>"

text \<open>
  Another machine: one file only, named differently, with the same bytes, and a service
  that answers for these bytes only.
\<close>

definition laptop :: "(nat, string) speech_env" where
  "laptop =
     \<lparr> SpeechClient = Inr 1,
       open_rb = (\<lambda>path. if path = ''copy.wav'' then Inr path
                          else Inl (OSError ''No such file or directory'')),
       read = (\<lambda>audio_file. Inr riff),
       recognize = (\<lambda>client config audio.
                      if content audio = riff then Inr greeting
                      else Inl (OtherException ''400 Bad Request'')) \<rparr>"



subsection \<open>For the command\<close>


subsection \<open>Sample runs of the command\<close>

definition llama_args :: Namespace where
  "llama_args = \<lparr> hugging_face_model = Some ''meta-llama/Meta-Llama-3-8B'', model = None \<rparr>"

definition gemma_args :: Namespace where
  "gemma_args = \<lparr> hugging_face_model = None, model = Some ''Google/Gemma2/Gemma2-9B'' \<rparr>"

definition machines :: "string list PublisherModel" where
  "machines =
     \<lparr> supportedActions =
         Some \<lparr> multiDeployVertex =
                  Some \<lparr> multiDeployVertex' = [''g2-standard-12'', ''a2-highgpu-1g''] \<rparr> \<rparr> \<rparr>"

text \<open>A catalogue with one deployable model and one that cannot be deployed.\<close>

definition catalogue :: "(unit, string list) mg_env" where
  "catalogue =
     \<lparr> ValidateModelGardenModelArgs = (\<lambda>args. None),
       BETA_VERSION = ''beta'',
       AiplatformEndpointOverrides = (\<lambda>version region. None),
       ModelGardenClient = (\<lambda>version. Inr ()),
       GetPublisherModel = (\<lambda>client name is_hf.
         if name = ''publishers/meta-llama/models/meta-llama-3-8b'' \<and> is_hf = Some True
         then Inr machines
         else if name = ''publishers/google/models/gemma2@gemma2-9b''
         then Inr \<lparr> supportedActions = None \<rparr>
         else Inl (OtherException ''404 Not Found'')) \<rparr>"

definition bare_args :: Namespace where
  "bare_args = \<lparr> hugging_face_model = Some ''gpt2'', model = None \<rparr>"

definition acme_args :: Namespace where
  "acme_args = \<lparr> hugging_face_model = Some ''acme/none'', model = None \<rparr>"

text \<open>The same catalogue behind a validator that rejects, and without credentials.\<close>

definition strict :: "(unit, string list) mg_env" where
  "strict =
     catalogue \<lparr> ValidateModelGardenModelArgs :=
                   (\<lambda>args. Some (OtherException ''Invalid value for [--model]'')) \<rparr>"

definition offline :: "(unit, string list) mg_env" where
  "offline =
     catalogue \<lparr> ModelGardenClient :=
                   (\<lambda>version. Inl (OtherException ''Your current active account has no credentials'')) \<rparr>"

definition unreachable :: "(unit, string list) mg_env" where
  "unreachable =
     catalogue \<lparr> AiplatformEndpointOverrides :=
                   (\<lambda>version region. Some (OtherException ''Unknown region'')) \<rparr>"

section \<open>Properties of \<open>process_audio\<close>\<close>


lemma extract_transcription_raises:
  "extract_transcription acc rs = Inl e \<Longrightarrow> e = IndexError ''list index out of range''"
  by (induction rs arbitrary: acc) (auto split: list.splits)

lemma extract_transcription_raises_iff:
  "(\<exists>e. extract_transcription acc rs = Inl e) \<longleftrightarrow> (\<exists>r \<in> set rs. alternatives r = [])"
  by (induction rs arbitrary: acc) (auto split: list.splits)

lemma recognize_calls_append:
  "recognize_calls (evs @ evs') = recognize_calls evs @ recognize_calls evs'"
  by (induction evs rule: recognize_calls.induct) simp_all


lemma recognize_calls_process_audio_try:
  "recognize_calls (fst (process_audio env path)) = recognize_calls (fst (process_audio_try env path))"
  by (auto simp: process_audio_def recognize_calls_append split: prod.splits sum.splits)





lemma process_audio_no_alternative:
  assumes "SpeechClient env = Inr client"
    and "open_rb env path = Inr audio_file"
    and "read env audio_file = Inr file_content"
    and "recognize env client recognition_config \<lparr> content = file_content \<rparr> = Inr response"
    and "\<exists>r \<in> set (results response). alternatives r = []"
  shows "snd (process_audio env path) = Inr None"
proof -
  from assms(5) obtain e where "extract_transcription [] (results response) = Inl e"
    using extract_transcription_raises_iff [of "[]" "results response"] by blast
  moreover from this have "e = IndexError ''list index out of range''"
    by (rule extract_transcription_raises)
  ultimately show ?thesis
    using assms(1-4) by (simp add: process_audio_def process_audio_try_def)
qed

lemma recognize_calls_try_cases:
  "recognize_calls (fst (process_audio_try env path)) = [] \<or>
   (\<exists>client audio_file file_content.
      SpeechClient env = Inr client \<and> open_rb env path = Inr audio_file \<and>
      read env audio_file = Inr file_content \<and>
      recognize_calls (fst (process_audio_try env path)) =
        [(recognition_config, \<lparr> content = file_content \<rparr>)])"
  by (auto simp: process_audio_try_def Let_def split: sum.splits)

lemma recognize_calls_try_sent:
  assumes "SpeechClient env = Inr client" and "open_rb env path = Inr audio_file"
    and "read env audio_file = Inr file_content"
  shows "recognize_calls (fst (process_audio_try env path)) =
           [(recognition_config, \<lparr> content = file_content \<rparr>)]"
  using assms by (auto simp: process_audio_try_def Let_def split: sum.splits)

text \<open>
  C1. \<open>process_audio\<close> passes the file through to the service: it calls
  \<open>client.recognize\<close> at most once; when the client is built and the file is read, it
  calls it exactly once, and the content of the \<open>RecognitionAudio\<close> sent is the bytes
  read; and every request it ever sends carries the bytes of the file, unchanged.
\<close>

theorem process_audio_pass_through:
  "length (recognize_calls (fst (process_audio env path))) \<le> 1
   \<and> (\<forall>client audio_file file_content.
        SpeechClient env = Inr client \<longrightarrow> open_rb env path = Inr audio_file \<longrightarrow>
        read env audio_file = Inr file_content \<longrightarrow>
        recognize_calls (fst (process_audio env path)) =
          [(recognition_config, \<lparr> content = file_content \<rparr>)])
   \<and> (\<forall>config audio.
        (config, audio) \<in> set (recognize_calls (fst (process_audio env path))) \<longrightarrow>
        (\<exists>audio_file. open_rb env path = Inr audio_file \<and>
                      read env audio_file = Inr (content audio)))"
proof (intro conjI allI impI)
  show "length (recognize_calls (fst (process_audio env path))) \<le> 1"
    using recognize_calls_try_cases [of env path]
    by (auto simp: recognize_calls_process_audio_try)
next
  fix client audio_file file_content
  assume "SpeechClient env = Inr client" "open_rb env path = Inr audio_file"
    "read env audio_file = Inr file_content"
  then show "recognize_calls (fst (process_audio env path)) =
               [(recognition_config, \<lparr> content = file_content \<rparr>)]"
    by (simp add: recognize_calls_process_audio_try recognize_calls_try_sent)
next
  fix config audio
  assume "(config, audio) \<in> set (recognize_calls (fst (process_audio env path)))"
  then show "\<exists>audio_file. open_rb env path = Inr audio_file \<and>
                          read env audio_file = Inr (content audio)"
    using recognize_calls_try_cases [of env path]
    by (auto simp: recognize_calls_process_audio_try)
qed

theorem process_audio_pass_through_witness:
  "SpeechClient studio = Inr () \<and> open_rb studio ''speech.wav'' = Inr () \<and>
   read studio () = Inr riff \<and>
   recognize_calls (fst (process_audio studio ''speech.wav'')) =
     [(recognition_config, \<lparr> content = riff \<rparr>)] \<and>
   (recognition_config, \<lparr> content = riff \<rparr>)
     \<in> set (recognize_calls (fst (process_audio studio ''speech.wav'')))"
proof -
  have steps: "SpeechClient studio = Inr ()" "open_rb studio ''speech.wav'' = Inr ()"
    "read studio () = Inr riff"
    by (simp_all add: studio_def)
  have "recognize_calls (fst (process_audio studio ''speech.wav'')) =
          [(recognition_config, \<lparr> content = riff \<rparr>)]"
    using process_audio_pass_through [of studio "''speech.wav''"] steps by blast
  with steps show ?thesis by simp
qed






text \<open>
  C8. Two runs of \<open>process_audio\<close>, in worlds that may differ in everything else, in
  which the file read has the same bytes and the service returns the same response,
  return the same value.
\<close>

theorem process_audio_deterministic:
  assumes "SpeechClient env = Inr client" and "SpeechClient env' = Inr client'"
    and "open_rb env path = Inr audio_file" and "open_rb env' path' = Inr audio_file'"
    and "read env audio_file = Inr file_content" and "read env' audio_file' = Inr file_content"
    and "recognize env client recognition_config \<lparr> content = file_content \<rparr> = Inr response"
    and "recognize env' client' recognition_config \<lparr> content = file_content \<rparr> = Inr response"
  shows "snd (process_audio env path) = snd (process_audio env' path')"
  using assms by (simp add: process_audio_def process_audio_try_def split: sum.splits)

theorem process_audio_deterministic_witness:
  "snd (process_audio studio ''speech.wav'') = snd (process_audio laptop ''copy.wav'')"
  by (rule process_audio_deterministic [where client = "()" and client' = 1
        and audio_file = "()" and audio_file' = "''copy.wav''"
        and file_content = riff and response = greeting])
     (simp_all add: studio_def laptop_def)

section \<open>Properties of the command\<close>






lemma of_char_lower_char:
  "(of_char (lower_char c) :: nat) = (if isupper c then of_char c + 32 else of_char c)"
proof (cases "isupper c")
  case True
  then have "(of_char c :: nat) + 32 < 256"
    by (auto simp: isupper_def Let_def)
  with True show ?thesis
    by (simp add: lower_char_def)
next
  case False
  then show ?thesis by (simp add: lower_char_def)
qed

lemma isupper_lower_char: "\<not> isupper (lower_char c)"
  unfolding isupper_def [of "lower_char c"] Let_def of_char_lower_char
  by (auto simp: isupper_def Let_def)

lemma lower_char_fixed: "\<not> isupper c \<Longrightarrow> lower_char c = c"
  by (simp add: lower_char_def)


lemma lower_append: "lower (s @ t) = lower s @ lower t"
  by (simp add: lower_def)

lemma lower_idem: "lower (lower s) = lower s"
  by (simp add: lower_def lower_char_fixed isupper_lower_char)






lemma lower_literals:
  "lower ''publishers/'' = ''publishers/''" "lower ''/models/'' = ''/models/''" "lower ''@'' = ''@''"
  by (simp_all add: lower_def lower_char_def isupper_def)








lemma fst_GetMultiDeploy:
  "ModelGardenClient env version = Inr mg_client \<Longrightarrow>
   fst (GetMultiDeploy env args version) = fst (fetch_publisher_model env mg_client args)"
  by (simp add: GetMultiDeploy_def split: prod.splits sum.splits)

lemma GetMultiDeploy_no_client:
  "ModelGardenClient env version = Inl e \<Longrightarrow> GetMultiDeploy env args version = ([], Inl e)"
  by (simp add: GetMultiDeploy_def)




lemma fetch_call:
  assumes "fst (fetch_publisher_model env mg_client args) = [(name, is_hf)]"
  shows "snd (fetch_publisher_model env mg_client args) = GetPublisherModel env mg_client name is_hf"
  using assms
  by (auto simp: fetch_publisher_model_def Let_def split: option.splits list.splits)

lemma fetch_no_call:
  assumes "fst (fetch_publisher_model env mg_client args) = []"
  shows "\<exists>m. snd (fetch_publisher_model env mg_client args) = Inl (ValueError m)
           \<or> snd (fetch_publisher_model env mg_client args) = Inl (AttributeError m)"
  using assms
  by (auto simp: fetch_publisher_model_def Let_def split: option.splits list.splits)





lemma multi_deploy_or_error_Inr:
  "multi_deploy_or_error pm = Inr v \<longleftrightarrow> read_multi_deploy pm = Inr v"
  by (auto simp: multi_deploy_or_error_def split: sum.splits exn.splits)

lemma multi_deploy_or_error_AttributeError:
  "read_multi_deploy pm = Inl (AttributeError m) \<Longrightarrow>
   multi_deploy_or_error pm = Inl (Error not_deployable)"
  by (simp add: multi_deploy_or_error_def)

lemma not_deployable_prefix:
  "\<exists>rest. not_deployable = ''Model does not support deployment'' @ rest"
  by (simp add: not_deployable_def)

lemma Run_GetMultiDeploy:
  "ValidateModelGardenModelArgs env args = None \<Longrightarrow>
   AiplatformEndpointOverrides env (BETA_VERSION env) ''us-central1'' = None \<Longrightarrow>
   Run env args = GetMultiDeploy env args (BETA_VERSION env)"
  by (simp add: Run_def)

lemma GetMultiDeploy_fetch:
  assumes "ModelGardenClient env version = Inr mg_client"
    and "fetch_publisher_model env mg_client args = (calls, r)"
  shows "GetMultiDeploy env args version =
           (calls, case r of Inl e \<Rightarrow> Inl e | Inr pm \<Rightarrow> multi_deploy_or_error pm)"
  using assms by (simp add: GetMultiDeploy_def split: sum.splits)



text \<open>
  C5. After the call of \<open>GetPublisherModel\<close>: when reading the field of the response
  raises \<open>AttributeError\<close>, \<open>_GetMultiDeploy\<close> raises an \<open>Error\<close> whose message starts with
  \<open>Model does not support deployment\<close>; when reading it succeeds, its value is returned.
  Nothing else is handled: an exception of \<open>GetPublisherModel\<close>, of the unpacking of the
  name, of the construction of the client, of the validation or of the endpoint override
  leaves the command as it is.
\<close>

theorem command_error_path:
  "(ModelGardenClient env version = Inr mg_client \<and>
    fst (GetMultiDeploy env args version) = [(name, is_hf)] \<longrightarrow>
      (\<forall>pm m. GetPublisherModel env mg_client name is_hf = Inr pm \<and>
               read_multi_deploy pm = Inl (AttributeError m) \<longrightarrow>
               (\<exists>rest. snd (GetMultiDeploy env args version) =
                         Inl (Error (''Model does not support deployment'' @ rest)))) \<and>
      (\<forall>pm v. GetPublisherModel env mg_client name is_hf = Inr pm \<and>
               read_multi_deploy pm = Inr v \<longrightarrow>
               snd (GetMultiDeploy env args version) = Inr v) \<and>
      (\<forall>e. GetPublisherModel env mg_client name is_hf = Inl e \<longrightarrow>
            snd (GetMultiDeploy env args version) = Inl e))
   \<and> (ModelGardenClient env version = Inr mg_client \<and>
      fst (GetMultiDeploy env args version) = [] \<longrightarrow>
        (\<exists>m. snd (GetMultiDeploy env args version) = Inl (ValueError m) \<or>
             snd (GetMultiDeploy env args version) = Inl (AttributeError m)))
   \<and> (ModelGardenClient env version = Inl e \<longrightarrow>
        GetMultiDeploy env args version = ([], Inl e))
   \<and> (ValidateModelGardenModelArgs env args = Some e \<longrightarrow> Run env args = ([], Inl e))
   \<and> (ValidateModelGardenModelArgs env args = None \<and>
      AiplatformEndpointOverrides env (BETA_VERSION env) ''us-central1'' = Some e \<longrightarrow>
        Run env args = ([], Inl e))
   \<and> (ValidateModelGardenModelArgs env args = None \<and>
      AiplatformEndpointOverrides env (BETA_VERSION env) ''us-central1'' = None \<longrightarrow>
        Run env args = GetMultiDeploy env args (BETA_VERSION env))"
proof (intro conjI impI allI; (elim conjE)?)
  assume client: "ModelGardenClient env version = Inr mg_client"
    and call: "fst (GetMultiDeploy env args version) = [(name, is_hf)]"
  obtain calls r where fetch: "fetch_publisher_model env mg_client args = (calls, r)"
    by (cases "fetch_publisher_model env mg_client args")
  from call client fetch have calls: "calls = [(name, is_hf)]"
    by (simp add: fst_GetMultiDeploy)
  with fetch fetch_call [of env mg_client args name is_hf]
  have r: "r = GetPublisherModel env mg_client name is_hf" by simp
  note result = GetMultiDeploy_fetch [OF client fetch, unfolded r]
  {
    fix pm m
    assume "GetPublisherModel env mg_client name is_hf = Inr pm"
      and "read_multi_deploy pm = Inl (AttributeError m)"
    then have "snd (GetMultiDeploy env args version) = Inl (Error not_deployable)"
      by (simp add: result multi_deploy_or_error_AttributeError)
    with not_deployable_prefix
    show "\<exists>rest. snd (GetMultiDeploy env args version) =
                   Inl (Error (''Model does not support deployment'' @ rest))"
      by auto
  next
    fix pm v
    assume "GetPublisherModel env mg_client name is_hf = Inr pm"
      and "read_multi_deploy pm = Inr v"
    then show "snd (GetMultiDeploy env args version) = Inr v"
      by (simp add: result multi_deploy_or_error_Inr)
  next
    fix e
    assume "GetPublisherModel env mg_client name is_hf = Inl e"
    then show "snd (GetMultiDeploy env args version) = Inl e"
      by (simp add: result)
  }
next
  assume client: "ModelGardenClient env version = Inr mg_client"
    and call: "fst (GetMultiDeploy env args version) = []"
  obtain calls r where fetch: "fetch_publisher_model env mg_client args = (calls, r)"
    by (cases "fetch_publisher_model env mg_client args")
  from call client fetch have "calls = []"
    by (simp add: fst_GetMultiDeploy)
  with fetch fetch_no_call [of env mg_client args]
  obtain m where "r = Inl (ValueError m) \<or> r = Inl (AttributeError m)" by auto
  then show "\<exists>m. snd (GetMultiDeploy env args version) = Inl (ValueError m) \<or>
                  snd (GetMultiDeploy env args version) = Inl (AttributeError m)"
    using GetMultiDeploy_fetch [OF client fetch] by auto
next
  assume "ModelGardenClient env version = Inl e"
  then show "GetMultiDeploy env args version = ([], Inl e)"
    by (rule GetMultiDeploy_no_client)
next
  assume "ValidateModelGardenModelArgs env args = Some e"
  then show "Run env args = ([], Inl e)" by (simp add: Run_def)
next
  assume "ValidateModelGardenModelArgs env args = None"
    and "AiplatformEndpointOverrides env (BETA_VERSION env) ''us-central1'' = Some e"
  then show "Run env args = ([], Inl e)" by (simp add: Run_def)
next
  assume "ValidateModelGardenModelArgs env args = None"
    and "AiplatformEndpointOverrides env (BETA_VERSION env) ''us-central1'' = None"
  then show "Run env args = GetMultiDeploy env args (BETA_VERSION env)"
    by (rule Run_GetMultiDeploy)
qed


lemma calls_gemma:
  "fst (GetMultiDeploy catalogue gemma_args ''beta'') =
     [(''publishers/google/models/gemma2@gemma2-9b'', None)]"
  by (simp add: GetMultiDeploy_def fetch_publisher_model_def catalogue_def gemma_args_def
      lower_def lower_char_def isupper_def char_of_eq_iff Let_def)

lemma calls_llama:
  "fst (GetMultiDeploy catalogue llama_args ''beta'') =
     [(''publishers/meta-llama/models/meta-llama-3-8b'', Some True)]"
  by (simp add: GetMultiDeploy_def fetch_publisher_model_def catalogue_def llama_args_def
      lower_def lower_char_def isupper_def char_of_eq_iff Let_def)

lemma calls_acme:
  "fst (GetMultiDeploy catalogue acme_args ''beta'') =
     [(''publishers/acme/models/none'', Some True)]"
  by (simp add: GetMultiDeploy_def fetch_publisher_model_def catalogue_def acme_args_def
      lower_def lower_char_def isupper_def char_of_eq_iff Let_def)

lemma calls_bare: "fst (GetMultiDeploy catalogue bare_args ''beta'') = []"
  by (simp add: GetMultiDeploy_def fetch_publisher_model_def catalogue_def bare_args_def
      lower_def lower_char_def isupper_def char_of_eq_iff Let_def)

theorem command_error_path_witness:
  "(\<exists>rest. snd (GetMultiDeploy catalogue gemma_args ''beta'') =
             Inl (Error (''Model does not support deployment'' @ rest)))
   \<and> snd (GetMultiDeploy catalogue llama_args ''beta'') =
       Inr [''g2-standard-12'', ''a2-highgpu-1g'']
   \<and> snd (GetMultiDeploy catalogue acme_args ''beta'') = Inl (OtherException ''404 Not Found'')
   \<and> (\<exists>m. snd (GetMultiDeploy catalogue bare_args ''beta'') = Inl (ValueError m) \<or>
           snd (GetMultiDeploy catalogue bare_args ''beta'') = Inl (AttributeError m))
   \<and> GetMultiDeploy offline llama_args ''beta'' =
       ([], Inl (OtherException ''Your current active account has no credentials''))
   \<and> Run strict llama_args = ([], Inl (OtherException ''Invalid value for [--model]''))
   \<and> Run unreachable llama_args = ([], Inl (OtherException ''Unknown region''))
   \<and> Run catalogue llama_args = GetMultiDeploy catalogue llama_args ''beta''"
proof -
  have client: "ModelGardenClient catalogue ''beta'' = Inr ()"
    by (simp add: catalogue_def)
  have undeployable:
    "GetPublisherModel catalogue () ''publishers/google/models/gemma2@gemma2-9b'' None =
       Inr \<lparr> supportedActions = None \<rparr>"
    "read_multi_deploy (\<lparr> supportedActions = None \<rparr> :: string list PublisherModel) =
       Inl (AttributeError ''NoneType object has no attribute multiDeployVertex'')"
    by (simp_all add: catalogue_def read_multi_deploy_def)
  have deployable:
    "GetPublisherModel catalogue () ''publishers/meta-llama/models/meta-llama-3-8b'' (Some True) =
       Inr machines"
    "read_multi_deploy machines = Inr [''g2-standard-12'', ''a2-highgpu-1g'']"
    by (simp_all add: catalogue_def read_multi_deploy_def machines_def)
  have missing:
    "GetPublisherModel catalogue () ''publishers/acme/models/none'' (Some True) =
       Inl (OtherException ''404 Not Found'')"
    by (simp add: catalogue_def)
  have no_credentials:
    "ModelGardenClient offline ''beta'' =
       Inl (OtherException ''Your current active account has no credentials'')"
    by (simp add: offline_def)
  have rejected:
    "ValidateModelGardenModelArgs strict llama_args =
       Some (OtherException ''Invalid value for [--model]'')"
    by (simp add: strict_def)
  have no_region:
    "ValidateModelGardenModelArgs unreachable llama_args = None"
    "AiplatformEndpointOverrides unreachable (BETA_VERSION unreachable) ''us-central1'' =
       Some (OtherException ''Unknown region'')"
    by (simp_all add: unreachable_def catalogue_def)
  have passes:
    "ValidateModelGardenModelArgs catalogue llama_args = None"
    "AiplatformEndpointOverrides catalogue (BETA_VERSION catalogue) ''us-central1'' = None"
    "BETA_VERSION catalogue = ''beta''"
    by (simp_all add: catalogue_def)
  have "\<exists>rest. snd (GetMultiDeploy catalogue gemma_args ''beta'') =
                 Inl (Error (''Model does not support deployment'' @ rest))"
    using command_error_path [of catalogue "''beta''" "()" gemma_args
        "''publishers/google/models/gemma2@gemma2-9b''" None]
      client calls_gemma undeployable by blast
  moreover have "snd (GetMultiDeploy catalogue llama_args ''beta'') =
                   Inr [''g2-standard-12'', ''a2-highgpu-1g'']"
    using command_error_path [of catalogue "''beta''" "()" llama_args
        "''publishers/meta-llama/models/meta-llama-3-8b''" "Some True"]
      client calls_llama deployable by blast
  moreover have "snd (GetMultiDeploy catalogue acme_args ''beta'') =
                   Inl (OtherException ''404 Not Found'')"
    using command_error_path [of catalogue "''beta''" "()" acme_args
        "''publishers/acme/models/none''" "Some True"]
      client calls_acme missing by blast
  moreover have "\<exists>m. snd (GetMultiDeploy catalogue bare_args ''beta'') = Inl (ValueError m) \<or>
                     snd (GetMultiDeploy catalogue bare_args ''beta'') = Inl (AttributeError m)"
    using command_error_path [of catalogue "''beta''" "()" bare_args] client calls_bare
    by blast
  moreover have "GetMultiDeploy offline llama_args ''beta'' =
                   ([], Inl (OtherException ''Your current active account has no credentials''))"
    using command_error_path [of offline "''beta''" _ llama_args] no_credentials by blast
  moreover have "Run strict llama_args = ([], Inl (OtherException ''Invalid value for [--model]''))"
    using command_error_path [of strict _ _ llama_args] rejected by blast
  moreover have "Run unreachable llama_args = ([], Inl (OtherException ''Unknown region''))"
    using command_error_path [of unreachable _ _ llama_args] no_region by blast
  moreover have "Run catalogue llama_args = GetMultiDeploy catalogue llama_args ''beta''"
    using command_error_path [of catalogue _ _ llama_args] passes by metis
  ultimately show ?thesis by blast
qed

section \<open>Properties of the generated client\<close>


end
